theory Spec2Isabelle
  imports Main
begin

section \<open>google-maps-promise: the loader of src/index.ts\<close>

text \<open>
  The module keeps six variables (\<open>urlSettings\<close>, \<open>resolvePromise\<close>, \<open>rejectPromise\<close>,
  \<open>promise\<close>, \<open>loaded\<close>, \<open>scriptElement\<close>) and works on three pieces of the browser:
  the global object, the promises it creates and the script elements it appends to
  \<open>document.body\<close>. All of them are fields of one state record; every function of the
  module takes the state and returns the new one.
\<close>

subsection \<open>Settings (interface UrlSettings, lines 222-242)\<close>

text \<open>\<open>string | null\<close> is \<open>string option\<close>, \<open>None\<close> being \<open>null\<close>.\<close>

record UrlSettings =
  url :: string
  key :: "string option"
  client :: "string option"
  version :: "string option"
  channel :: "string option"
  libraries :: "string list"
  language :: "string option"
  region :: "string option"
  windowCallbackName :: string

text \<open>Lines 8-18.\<close>

definition defaultUrlSettings :: UrlSettings where
  "defaultUrlSettings =
     \<lparr> url = ''https://maps.googleapis.com/maps/api/js'',
       key = None,
       client = None,
       version = Some ''3.32'',
       channel = None,
       libraries = [],
       language = None,
       region = None,
       windowCallbackName = ''__google_maps_api_provider_initializator__'' \<rparr>"

text \<open>
  JavaScript's truthiness of a \<open>string | null\<close>: \<open>null\<close> and the empty string are falsy.
  \<open>str\<close> is the text that \<open>'key=' + x\<close> appends for a truthy \<open>x\<close>; \<open>orElse a b\<close> is
  \<open>a || b\<close> on strings.
\<close>

fun truthy :: "string option \<Rightarrow> bool" where
  "truthy None = False"
| "truthy (Some s) = (s \<noteq> [])"

fun str :: "string option \<Rightarrow> string" where
  "str None = ''null''"
| "str (Some s) = s"

definition orElse :: "string \<Rightarrow> string \<Rightarrow> string" where
  "orElse a b = (if a \<noteq> [] then a else b)"

definition orElseOpt :: "string option \<Rightarrow> string option \<Rightarrow> string" where
  "orElseOpt a b = (if truthy a then str a else str b)"

text \<open>\<open>Array.prototype.join\<close> on an array of strings.\<close>

fun join :: "string \<Rightarrow> string list \<Rightarrow> string" where
  "join sep [] = []"
| "join sep [x] = x"
| "join sep (x # y # ys) = x @ sep @ join sep (y # ys)"

text \<open>The array \<open>parts\<close> of createUrl as it stands at line 188 (lines 144-186).\<close>

definition urlParts :: "UrlSettings \<Rightarrow> string list" where
  "urlParts c =
     [''callback='' @ orElse (windowCallbackName c) (windowCallbackName defaultUrlSettings)]
     @ (if truthy (key c) then [''key='' @ str (key c)] else [])
     @ (if truthy (client c)
        then [''client='' @ str (client c),
              ''v='' @ orElseOpt (version c) (version defaultUrlSettings)]
        else if truthy (version c) then [''v='' @ str (version c)] else [])
     @ (if truthy (channel c) then [''channel='' @ str (channel c)] else [])
     @ (if length (libraries c) > 0 then [''libraries='' @ join '','' (libraries c)] else [])
     @ (if truthy (language c) then [''language='' @ str (language c)] else [])
     @ (if truthy (region c) then [''region='' @ str (region c)] else [])"

text \<open>createUrl (lines 142-189), as a function of the current settings.\<close>

definition createUrl :: "UrlSettings \<Rightarrow> string" where
  "createUrl c = orElse (url c) (url defaultUrlSettings) @ ''?'' @ join ''&'' (urlParts c)"

text \<open>The names of the parameters of the address, in order: each part up to its first \<open>=\<close>.\<close>

definition paramNames :: "UrlSettings \<Rightarrow> string list" where
  "paramNames c = map (takeWhile (\<lambda>ch. ch \<noteq> CHR ''='')) (urlParts c)"

subsection \<open>Values, promises, script elements\<close>

text \<open>
  The values a global slot can hold. Numbers are restricted to integers (\<open>0\<close> is the
  falsy one); an object is an identity and its own properties. \<open>Callback\<close> is the arrow
  function of lines 131-132: it closes over module variables only, so all its instances
  behave alike.
\<close>

datatype jsval =
    JUndefined
  | JNull
  | JBool bool
  | JNum int
  | JStr string
  | JObj nat "(string \<times> jsval) list"

datatype global = Value jsval | Callback

fun truthyVal :: "jsval \<Rightarrow> bool" where
  "truthyVal JUndefined = False"
| "truthyVal JNull = False"
| "truthyVal (JBool b) = b"
| "truthyVal (JNum n) = (n \<noteq> 0)"
| "truthyVal (JStr s) = (s \<noteq> [])"
| "truthyVal (JObj i ps) = True"

fun truthyGlobal :: "global \<Rightarrow> bool" where
  "truthyGlobal (Value v) = truthyVal v"
| "truthyGlobal Callback = True"

text \<open>
  \<open>x.maps\<close> for an \<open>x\<close> that is neither \<open>undefined\<close> nor \<open>null\<close>: the property of an
  object, \<open>undefined\<close> on a primitive or on the callback function.
\<close>

fun mapsOf :: "global \<Rightarrow> jsval" where
  "mapsOf (Value (JObj i ps)) = (case map_of ps ''maps'' of None \<Rightarrow> JUndefined | Some v \<Rightarrow> v)"
| "mapsOf g = JUndefined"

fun nullish :: "global \<Rightarrow> bool" where
  "nullish (Value JUndefined) = True"
| "nullish (Value JNull) = True"
| "nullish g = False"

text \<open>Reading a global: a missing property reads as \<open>undefined\<close>.\<close>

definition getGlobal :: "(string \<rightharpoonup> global) \<Rightarrow> string \<Rightarrow> global" where
  "getGlobal w n = (case w n of None \<Rightarrow> Value JUndefined | Some g \<Rightarrow> g)"

text \<open>
  The URIError of lines 121-123 is the only reason the module rejects with; the TypeError
  is what line 134 throws when \<open>document.body\<close> is \<open>null\<close>.
\<close>

datatype error = URIError string

datatype exn = TypeError

datatype pstate = Pending | Fulfilled jsval | Rejected error

text \<open>
  A script element as createLoader sets it up: its type, the src written to it, whether
  \<open>onerror\<close> holds the handler of lines 119-124 (which closes over module variables only),
  and whether it has been appended to the document: the browser fetches the script, and
  can fail to, only once it has.
\<close>

record script =
  el_type :: string
  el_src :: string
  el_onerror :: bool
  el_inserted :: bool

text \<open>The variable \<open>scriptElement\<close>: declared without a value, later an element or \<open>null\<close>.\<close>

datatype handle = HUndefined | HNull | HElement nat

text \<open>
  A job of the microtask queue made by \<open>promise.then( cleanupEnvironment )\<close> (line 84)
  for the derived promise \<open>d\<close>: on fulfilment the job calls cleanupEnvironment and
  resolves \<open>d\<close>; on rejection there is no handler, so the job passes the reason on to \<open>d\<close>.
\<close>

datatype job = CleanupJob nat | RejectJob nat error

record state =
  urlSettings :: UrlSettings
  resolvePromise :: nat
  rejectPromise :: nat
  promise :: nat
  loaded :: bool
  scriptElement :: handle
  defaultLibraries :: "string list"
  sharedLibraries :: bool
  window :: "string \<rightharpoonup> global"
  promises :: "nat \<Rightarrow> pstate"
  nextPromise :: nat
  reactions :: "(nat \<times> nat) list"
  jobs :: "job list"
  elements :: "nat \<rightharpoonup> script"
  nextElement :: nat
  body :: "nat list"
  hasBody :: bool
  resolveSrc :: "string \<Rightarrow> string"

text \<open>
  \<open>urlSettings\<close> holds the settings as they read now. \<open>Object.assign\<close> at lines 28 and
  92 copies the fields of \<open>defaultUrlSettings\<close> one level deep, so the new settings share
  the array \<open>libraries\<close> with the defaults until the page assigns another array:
  \<open>defaultLibraries\<close> is the content of the defaults' array and \<open>sharedLibraries\<close> tells
  whether \<open>urlSettings.libraries\<close> is that same array. The other fields of the defaults
  are strings and \<open>null\<close>, which the type keeps read-only.

  \<open>promises\<close> gives the state of every promise object, \<open>nextPromise\<close> the next unused
  identity; \<open>reactions\<close> holds the pairs (promise, derived promise) registered by line 84
  on a promise that is still pending. \<open>hasBody\<close> tells whether \<open>document.body\<close> is an
  element, \<open>body\<close> lists its children. \<open>resolveSrc\<close> is the page's reading of a script
  address: \<open>element.src\<close> gives back the address written to it resolved against the page
  and serialized.
\<close>

text \<open>The object \<open>defaultUrlSettings\<close> as it is now.\<close>

definition defaultsNow :: "state \<Rightarrow> UrlSettings" where
  "defaultsNow s = defaultUrlSettings\<lparr> libraries := defaultLibraries s \<rparr>"

subsection \<open>Promise primitives\<close>

definition newPromise :: "pstate \<Rightarrow> state \<Rightarrow> nat \<times> state" where
  "newPromise st s =
     (nextPromise s,
      s\<lparr> promises := (promises s)(nextPromise s := st), nextPromise := Suc (nextPromise s) \<rparr>)"

fun jobFor :: "pstate \<Rightarrow> nat \<Rightarrow> job list" where
  "jobFor Pending d = []"
| "jobFor (Fulfilled v) d = [CleanupJob d]"
| "jobFor (Rejected e) d = [RejectJob d e]"

text \<open>
  Calling the resolve or reject function of promise \<open>p\<close>: nothing happens when \<open>p\<close> is
  settled already; otherwise \<open>p\<close> takes the outcome and its reactions become jobs.
\<close>

definition settle :: "nat \<Rightarrow> pstate \<Rightarrow> state \<Rightarrow> state" where
  "settle p out s =
     (if promises s p = Pending
      then s\<lparr> promises := (promises s)(p := out),
              jobs := jobs s @ concat (map (\<lambda>r. jobFor out (snd r))
                                          (filter (\<lambda>r. fst r = p) (reactions s))),
              reactions := filter (\<lambda>r. fst r \<noteq> p) (reactions s) \<rparr>
      else s)"

text \<open>\<open>p.then( cleanupEnvironment )\<close>: returns the derived promise.\<close>

definition thenCleanup :: "nat \<Rightarrow> state \<Rightarrow> nat \<times> state" where
  "thenCleanup p s =
     (let (d, s1) = newPromise Pending s
      in (d, case promises s p of
               Pending \<Rightarrow> s1\<lparr> reactions := reactions s1 @ [(p, d)] \<rparr>
             | out \<Rightarrow> s1\<lparr> jobs := jobs s1 @ jobFor out d \<rparr>))"

subsection \<open>The module's functions\<close>

text \<open>init (lines 90-102).\<close>

definition init :: "state \<Rightarrow> state" where
  "init s =
     (let (p, s1) = newPromise Pending
                      (s\<lparr> urlSettings := defaultsNow s, sharedLibraries := True,
                          loaded := False \<rparr>)
      in s1\<lparr> resolvePromise := p, rejectPromise := p, promise := p \<rparr>)"

text \<open>
  createLoader (lines 107-135); \<open>namespaceExists\<close> is the test of lines 109-112,
  \<open>windowWithAnything.google && windowWithAnything.google.maps\<close>. Without the namespace
  the element is created and set up, the callback is registered, and line 134 appends the
  element to \<open>document.body\<close>, which throws a TypeError when there is no body; whatever
  was done before stays done.
\<close>

definition namespaceExists :: "state \<Rightarrow> bool" where
  "namespaceExists s \<longleftrightarrow>
     truthyGlobal (getGlobal (window s) ''google'')
     \<and> truthyVal (mapsOf (getGlobal (window s) ''google''))"

definition createLoader :: "state \<Rightarrow> (exn + unit) \<times> state" where
  "createLoader s =
     (if namespaceExists s
      then (Inr (),
            settle (resolvePromise s) (Fulfilled (mapsOf (getGlobal (window s) ''google''))) s)
      else
           (let e = nextElement s;
                s1 = s\<lparr> scriptElement := HElement e,
                        nextElement := Suc e,
                        elements := (elements s)(e \<mapsto>
                          \<lparr> el_type = ''text/javascript'',
                            el_src = createUrl (urlSettings s),
                            el_onerror = True,
                            el_inserted = False \<rparr>) \<rparr>;
                s2 = s1\<lparr> window := (window s1)(windowCallbackName (urlSettings s1) \<mapsto> Callback) \<rparr>
            in if hasBody s2
               then (Inr (),
                     s2\<lparr> body := body s2 @ [e],
                         elements := (elements s2)(e \<mapsto>
                           \<lparr> el_type = ''text/javascript'',
                             el_src = createUrl (urlSettings s),
                             el_onerror = True,
                             el_inserted = True \<rparr>) \<rparr>)
               else (Inl TypeError, s2)))"

text \<open>
  load (lines 59-68): what the call gives, the returned promise or the exception that
  createLoader threw, and the new state.
\<close>

definition load :: "state \<Rightarrow> (exn + nat) \<times> state" where
  "load s =
     (if \<not> loaded s
      then (case createLoader (s\<lparr> loaded := True \<rparr>) of
              (Inl x, s1) \<Rightarrow> (Inl x, s1)
            | (Inr u, s1) \<Rightarrow> (Inr (promise s1), s1))
      else (Inr (promise s), s))"

text \<open>
  cleanupEnvironment (lines 194-217). \<open>typeof x !== 'undefined'\<close> is false for a missing
  property and for one that holds \<open>undefined\<close>; \<open>delete\<close> removes the property.
\<close>

definition cleanupEnvironment :: "state \<Rightarrow> state" where
  "cleanupEnvironment s =
     (let s1 = init s;
          s2 = (if getGlobal (window s1) ''google'' \<noteq> Value JUndefined
                then s1\<lparr> window := (window s1)(''google'' := None) \<rparr> else s1);
          n = windowCallbackName (urlSettings s2);
          s3 = (if getGlobal (window s2) n \<noteq> Value JUndefined
                then s2\<lparr> window := (window s2)(n := None) \<rparr> else s2)
      in case scriptElement s3 of
           HElement e \<Rightarrow>
             s3\<lparr> body := (if e \<in> set (body s3) then removeAll e (body s3) else body s3),
                 scriptElement := HNull \<rparr>
         | h \<Rightarrow> s3)"

text \<open>release (lines 75-85): the returned promise and the new state.\<close>

definition release :: "state \<Rightarrow> nat \<times> state" where
  "release s =
     (if \<not> loaded s
      then newPromise (Fulfilled JUndefined) (cleanupEnvironment s)
      else thenCleanup (promise s) s)"

subsection \<open>What the browser and the page do\<close>

text \<open>
  The rest of the browser is taken as the module uses it: \<open>delete\<close> of a global succeeds
  and the value of \<open>google.maps\<close> is not a thenable. One thread runs everything, so the
  state changes one event at a time.
\<close>

text \<open>
  The handler \<open>onError\<close> (lines 119-124); the template prints
  \<open>scriptElement && scriptElement.src\<close>, the address as the element gives it back.
\<close>

definition handleText :: "state \<Rightarrow> string" where
  "handleText s =
     (case scriptElement s of
        HUndefined \<Rightarrow> ''undefined''
      | HNull \<Rightarrow> ''null''
      | HElement e \<Rightarrow>
          (case elements s e of
             None \<Rightarrow> ''undefined''
           | Some el \<Rightarrow> resolveSrc s (el_src el)))"

definition onError :: "state \<Rightarrow> state" where
  "onError s =
     settle (rejectPromise s)
       (Rejected (URIError (''The script '' @ handleText s @ '' is not accessible.''))) s"

text \<open>
  The callback of lines 131-132. Reading \<open>.maps\<close> of \<open>undefined\<close> or \<open>null\<close> throws inside
  the callback and leaves the module as it is.
\<close>

definition windowCallback :: "state \<Rightarrow> state" where
  "windowCallback s =
     (let g = getGlobal (window s) ''google''
      in if nullish g then s else settle (resolvePromise s) (Fulfilled (mapsOf g)) s)"

fun runJob :: "job \<Rightarrow> state \<Rightarrow> state" where
  "runJob (CleanupJob d) s = settle d (Fulfilled JUndefined) (cleanupEnvironment s)"
| "runJob (RejectJob d e) s = settle d (Rejected e) s"

definition microtask :: "state \<Rightarrow> state" where
  "microtask s = (case jobs s of [] \<Rightarrow> s | j # js \<Rightarrow> runJob j (s\<lparr> jobs := js \<rparr>))"

text \<open>
  What can happen to the module: a call of load or release; the error event of a script
  element that has been appended; a call of the global function of some name; one job of
  the microtask queue; the page assigning the eight fields of the settings that are
  strings or \<open>null\<close>
  (\<open>Configure\<close>, which leaves \<open>libraries\<close> alone), assigning a new array to
  \<open>urlSettings.libraries\<close>, pushing onto the array that is there, or pushing onto the
  array of the defaults (the read-only type of \<open>defaultUrlSettings\<close> covers its fields,
  not the content of its array); anybody writing or deleting a global; the body of the
  document coming into being.
\<close>

datatype event =
    Load
  | Release
  | ScriptError nat
  | InvokeCallback string
  | Microtask
  | Configure UrlSettings
  | SetLibraries "string list"
  | PushLibrary string
  | PushDefaultLibrary string
  | SetGlobal string "global option"
  | BodyReady

fun step :: "event \<Rightarrow> state \<Rightarrow> state" where
  "step Load s = snd (load s)"
| "step Release s = snd (release s)"
| "step (ScriptError e) s =
     (case elements s e of
        None \<Rightarrow> s
      | Some el \<Rightarrow> if el_onerror el \<and> el_inserted el then onError s else s)"
| "step (InvokeCallback n) s = (if window s n = Some Callback then windowCallback s else s)"
| "step Microtask s = microtask s"
| "step (Configure c) s = s\<lparr> urlSettings := c\<lparr> libraries := libraries (urlSettings s) \<rparr> \<rparr>"
| "step (SetLibraries xs) s =
     s\<lparr> urlSettings := (urlSettings s)\<lparr> libraries := xs \<rparr>, sharedLibraries := False \<rparr>"
| "step (PushLibrary x) s =
     s\<lparr> urlSettings := (urlSettings s)\<lparr> libraries := libraries (urlSettings s) @ [x] \<rparr>,
        defaultLibraries :=
          (if sharedLibraries s then defaultLibraries s @ [x] else defaultLibraries s) \<rparr>"
| "step (PushDefaultLibrary x) s =
     s\<lparr> defaultLibraries := defaultLibraries s @ [x],
        urlSettings :=
          (if sharedLibraries s
           then (urlSettings s)\<lparr> libraries := libraries (urlSettings s) @ [x] \<rparr>
           else urlSettings s) \<rparr>"
| "step (SetGlobal n g) s = s\<lparr> window := (window s)(n := g) \<rparr>"
| "step BodyReady s = s\<lparr> hasBody := True \<rparr>"

fun run :: "event list \<Rightarrow> state \<Rightarrow> state" where
  "run [] s = s"
| "run (ev # evs) s = run evs (step ev s)"

text \<open>
  What the calls of load in a trace give, in order, and the promises among that: a call
  that throws returns none.
\<close>

fun loadOutcomes :: "event list \<Rightarrow> state \<Rightarrow> (exn + nat) list" where
  "loadOutcomes [] s = []"
| "loadOutcomes (Load # evs) s = fst (load s) # loadOutcomes evs (step Load s)"
| "loadOutcomes (ev # evs) s = loadOutcomes evs (step ev s)"

fun returned :: "(exn + nat) list \<Rightarrow> nat list" where
  "returned [] = []"
| "returned (Inr p # os) = p # returned os"
| "returned (Inl x # os) = returned os"

definition loadResults :: "event list \<Rightarrow> state \<Rightarrow> nat list" where
  "loadResults es s = returned (loadOutcomes es s)"

text \<open>
  The module when it has just been evaluated (line 28 and the call of init at line 52) in
  a page that reads addresses by \<open>rs\<close>, has a body or not, and whose global object is \<open>w\<close>;
  no promise and no element of the module exists before. \<open>start w\<close> is the page that has
  a body and in which the addresses read back as written, as the absolute addresses of the
  default base url do.
\<close>

definition startPage :: "(string \<Rightarrow> string) \<Rightarrow> bool \<Rightarrow> (string \<rightharpoonup> global) \<Rightarrow> state" where
  "startPage rs hb w =
     init \<lparr> urlSettings = defaultUrlSettings, resolvePromise = 0, rejectPromise = 0,
            promise = 0, loaded = False, scriptElement = HUndefined,
            defaultLibraries = [], sharedLibraries = True, window = w,
            promises = (\<lambda>p. Pending), nextPromise = 0, reactions = [], jobs = [],
            elements = Map.empty, nextElement = 0, body = [], hasBody = hb,
            resolveSrc = rs \<rparr>"

definition start :: "(string \<rightharpoonup> global) \<Rightarrow> state" where
  "start w = startPage id True w"

subsection \<open>Predicates of the statements\<close>

text \<open>
  The events that are calls and writes of the page's own code, which neither settle the
  promise nor run a job.
\<close>

fun byCaller :: "event \<Rightarrow> bool" where
  "byCaller Load = True"
| "byCaller Release = True"
| "byCaller (Configure c) = True"
| "byCaller (SetLibraries xs) = True"
| "byCaller (PushLibrary x) = True"
| "byCaller (PushDefaultLibrary x) = True"
| "byCaller (SetGlobal n g) = True"
| "byCaller ev = False"

fun isRejectJob :: "job \<Rightarrow> bool" where
  "isRejectJob (RejectJob d e) = True"
| "isRejectJob (CleanupJob d) = False"

text \<open>
  cleanupEnvironment is called at line 79, by release in a session that has not started,
  and by the job of line 84. A trace stays in the session of its first state when no
  event of it runs cleanupEnvironment.
\<close>

fun runsCleanup :: "event \<Rightarrow> state \<Rightarrow> bool" where
  "runsCleanup Release s = (\<not> loaded s)"
| "runsCleanup Microtask s = (case jobs s of CleanupJob d # js \<Rightarrow> True | js \<Rightarrow> False)"
| "runsCleanup ev s = False"

fun sameSession :: "event list \<Rightarrow> state \<Rightarrow> bool" where
  "sameSession [] s = True"
| "sameSession (ev # evs) s = (\<not> runsCleanup ev s \<and> sameSession evs (step ev s))"

text \<open>
  The resolve and reject functions are those of the current promise, which exists, and
  every script element there is has been created by createLoader before.
\<close>

definition wired :: "state \<Rightarrow> bool" where
  "wired s \<longleftrightarrow>
     resolvePromise s = promise s \<and> rejectPromise s = promise s \<and> promise s < nextPromise s
     \<and> (\<forall>e. elements s e \<noteq> None \<longrightarrow> e < nextElement s)"

text \<open>
  A started session whose promise \<open>p\<close> is pending, with its script element \<open>e\<close>, and no
  job waiting.
\<close>

definition loading :: "nat \<Rightarrow> nat \<Rightarrow> script \<Rightarrow> state \<Rightarrow> bool" where
  "loading p e el s \<longleftrightarrow>
     loaded s \<and> promise s = p \<and> resolvePromise s = p \<and> rejectPromise s = p
     \<and> p < nextPromise s \<and> promises s p = Pending \<and> jobs s = []
     \<and> scriptElement s = HElement e \<and> elements s e = Some el"

text \<open>A started session whose promise \<open>p\<close> is rejected with \<open>err\<close>, no cleanup job waiting.\<close>

definition failed :: "nat \<Rightarrow> error \<Rightarrow> state \<Rightarrow> bool" where
  "failed p err s \<longleftrightarrow>
     loaded s \<and> promise s = p \<and> resolvePromise s = p \<and> p < nextPromise s
     \<and> promises s p = Rejected err \<and> list_all isRejectJob (jobs s)"

text \<open>What cleanupEnvironment leaves behind.\<close>

definition torn_down :: "state \<Rightarrow> bool" where
  "torn_down s \<longleftrightarrow>
     \<not> loaded s \<and> urlSettings s = defaultsNow s \<and> sharedLibraries s
     \<and> getGlobal (window s) ''google'' = Value JUndefined
     \<and> getGlobal (window s) (windowCallbackName defaultUrlSettings) = Value JUndefined
     \<and> (\<forall>e. scriptElement s \<noteq> HElement e)"

subsection \<open>URL construction\<close>

text \<open>
  C3. For the settings key "K", libraries places and geometry, language "ru", region "RU"
  and every other field at its default, createUrl returns exactly the address below.
\<close>

theorem createUrl_example:
  "createUrl (defaultUrlSettings\<lparr> key := Some ''K'', libraries := [''places'', ''geometry''],
                                 language := Some ''ru'', region := Some ''RU'' \<rparr>)
   = ''https://maps.googleapis.com/maps/api/js?callback=__google_maps_api_provider_initializator__&key=K&v=3.32&libraries=places,geometry&language=ru&region=RU''"
  by (simp add: createUrl_def urlParts_def defaultUrlSettings_def orElse_def orElseOpt_def)

lemma join_Cons: "xs \<noteq> [] \<Longrightarrow> join sep (x # xs) = x @ sep @ join sep xs"
  by (cases xs) simp_all

lemma join_append:
  "xs \<noteq> [] \<Longrightarrow> ys \<noteq> [] \<Longrightarrow> join sep (xs @ ys) = join sep xs @ sep @ join sep ys"
proof (induction xs)
  case Nil
  then show ?case by simp
next
  case (Cons x xs)
  show ?case
  proof (cases "xs = []")
    case True
    with Cons.prems show ?thesis by (simp add: join_Cons)
  next
    case False
    with Cons show ?thesis by (simp add: join_Cons)
  qed
qed

lemma join_pair_inside:
  "pre \<noteq> [] \<Longrightarrow>
   \<exists>a b. join sep (pre @ [x, y] @ post) = a @ x @ sep @ y @ b \<and> (b = [] \<or> (\<exists>b'. b = sep @ b'))"
proof (cases "post = []")
  case True
  assume "pre \<noteq> []"
  then have "join sep (pre @ [x, y] @ post) = (join sep pre @ sep) @ x @ sep @ y @ []"
    using True by (simp add: join_append)
  then show ?thesis by blast
next
  case False
  assume "pre \<noteq> []"
  then have "join sep (pre @ [x, y] @ post) = (join sep pre @ sep) @ x @ sep @ y @ (sep @ join sep post)"
    using False join_append [of "pre @ [x, y]" post sep] join_append [of pre "[x, y]" sep] by simp
  then show ?thesis by blast
qed

lemma urlParts_client:
  assumes "truthy (client c)"
  shows "\<exists>pre post. pre \<noteq> [] \<and> urlParts c =
           pre @ [''client='' @ str (client c),
                  ''v='' @ (if truthy (version c) then str (version c) else ''3.32'')] @ post"
proof -
  let ?pre = "[''callback='' @ orElse (windowCallbackName c) (windowCallbackName defaultUrlSettings)]
     @ (if truthy (key c) then [''key='' @ str (key c)] else [])"
  let ?post = "(if truthy (channel c) then [''channel='' @ str (channel c)] else [])
     @ (if length (libraries c) > 0 then [''libraries='' @ join '','' (libraries c)] else [])
     @ (if truthy (language c) then [''language='' @ str (language c)] else [])
     @ (if truthy (region c) then [''region='' @ str (region c)] else [])"
  have "urlParts c = ?pre @ [''client='' @ str (client c),
                  ''v='' @ (if truthy (version c) then str (version c) else ''3.32'')] @ ?post"
    using assms by (simp add: urlParts_def orElseOpt_def defaultUrlSettings_def)
  moreover have "?pre \<noteq> []" by simp
  ultimately show ?thesis by blast
qed

lemma paramNames_v:
  "\<not> truthy (client c) \<Longrightarrow> (''v'' \<in> set (paramNames c)) = truthy (version c)"
  by (auto simp: paramNames_def urlParts_def)




text \<open>The example of the specification: client "C" and version null.\<close>

lemma createUrl_client_example:
  "createUrl (defaultUrlSettings\<lparr> client := Some ''C'', version := None \<rparr>)
   = ''https://maps.googleapis.com/maps/api/js?callback=__google_maps_api_provider_initializator__&client=C&v=3.32''"
  by (simp add: createUrl_def urlParts_def defaultUrlSettings_def orElse_def orElseOpt_def)




subsection \<open>Which fields the functions leave alone\<close>

lemma settle_frame [simp]:
  "loaded (settle p out s) = loaded s"
  "promise (settle p out s) = promise s"
  "resolvePromise (settle p out s) = resolvePromise s"
  "rejectPromise (settle p out s) = rejectPromise s"
  "urlSettings (settle p out s) = urlSettings s"
  "defaultLibraries (settle p out s) = defaultLibraries s"
  "sharedLibraries (settle p out s) = sharedLibraries s"
  "scriptElement (settle p out s) = scriptElement s"
  "window (settle p out s) = window s"
  "nextPromise (settle p out s) = nextPromise s"
  "elements (settle p out s) = elements s"
  "nextElement (settle p out s) = nextElement s"
  "body (settle p out s) = body s"
  "hasBody (settle p out s) = hasBody s"
  "resolveSrc (settle p out s) = resolveSrc s"
  by (simp_all add: settle_def)

lemma newPromise_frame [simp]:
  "fst (newPromise st s) = nextPromise s"
  "loaded (snd (newPromise st s)) = loaded s"
  "promise (snd (newPromise st s)) = promise s"
  "resolvePromise (snd (newPromise st s)) = resolvePromise s"
  "rejectPromise (snd (newPromise st s)) = rejectPromise s"
  "urlSettings (snd (newPromise st s)) = urlSettings s"
  "defaultLibraries (snd (newPromise st s)) = defaultLibraries s"
  "sharedLibraries (snd (newPromise st s)) = sharedLibraries s"
  "scriptElement (snd (newPromise st s)) = scriptElement s"
  "window (snd (newPromise st s)) = window s"
  "nextPromise (snd (newPromise st s)) = Suc (nextPromise s)"
  "elements (snd (newPromise st s)) = elements s"
  "nextElement (snd (newPromise st s)) = nextElement s"
  "body (snd (newPromise st s)) = body s"
  "hasBody (snd (newPromise st s)) = hasBody s"
  "resolveSrc (snd (newPromise st s)) = resolveSrc s"
  "jobs (snd (newPromise st s)) = jobs s"
  "reactions (snd (newPromise st s)) = reactions s"
  "promises (snd (newPromise st s)) = (promises s)(nextPromise s := st)"
  by (simp_all add: newPromise_def)

lemma thenCleanup_frame [simp]:
  "fst (thenCleanup p s) = nextPromise s"
  "loaded (snd (thenCleanup p s)) = loaded s"
  "promise (snd (thenCleanup p s)) = promise s"
  "resolvePromise (snd (thenCleanup p s)) = resolvePromise s"
  "rejectPromise (snd (thenCleanup p s)) = rejectPromise s"
  "urlSettings (snd (thenCleanup p s)) = urlSettings s"
  "defaultLibraries (snd (thenCleanup p s)) = defaultLibraries s"
  "sharedLibraries (snd (thenCleanup p s)) = sharedLibraries s"
  "scriptElement (snd (thenCleanup p s)) = scriptElement s"
  "window (snd (thenCleanup p s)) = window s"
  "nextPromise (snd (thenCleanup p s)) = Suc (nextPromise s)"
  "elements (snd (thenCleanup p s)) = elements s"
  "nextElement (snd (thenCleanup p s)) = nextElement s"
  "body (snd (thenCleanup p s)) = body s"
  "hasBody (snd (thenCleanup p s)) = hasBody s"
  "resolveSrc (snd (thenCleanup p s)) = resolveSrc s"
  "promises (snd (thenCleanup p s)) = (promises s)(nextPromise s := Pending)"
  by (simp_all add: thenCleanup_def newPromise_def split: pstate.splits)

lemma createLoader_frame [simp]:
  "loaded (snd (createLoader s)) = loaded s"
  "promise (snd (createLoader s)) = promise s"
  "resolvePromise (snd (createLoader s)) = resolvePromise s"
  "rejectPromise (snd (createLoader s)) = rejectPromise s"
  "urlSettings (snd (createLoader s)) = urlSettings s"
  "defaultLibraries (snd (createLoader s)) = defaultLibraries s"
  "sharedLibraries (snd (createLoader s)) = sharedLibraries s"
  "nextPromise (snd (createLoader s)) = nextPromise s"
  "hasBody (snd (createLoader s)) = hasBody s"
  "resolveSrc (snd (createLoader s)) = resolveSrc s"
  by (simp_all add: createLoader_def Let_def)

lemma namespaceExists_loaded [simp]:
  "namespaceExists (s\<lparr> loaded := b \<rparr>) = namespaceExists s"
  by (simp add: namespaceExists_def)

subsection \<open>load\<close>

lemma load_state: "\<not> loaded s \<Longrightarrow> snd (load s) = snd (createLoader (s\<lparr> loaded := True \<rparr>))"
  by (simp add: load_def split: prod.splits sum.splits)

lemma load_again: "loaded s \<Longrightarrow> load s = (Inr (promise s), s)"
  by (simp add: load_def)

lemma load_loaded [simp]: "loaded (snd (load s))"
  by (cases "loaded s") (simp_all add: load_again load_state)

lemma load_frame [simp]:
  "promise (snd (load s)) = promise s"
  "resolvePromise (snd (load s)) = resolvePromise s"
  "rejectPromise (snd (load s)) = rejectPromise s"
  "urlSettings (snd (load s)) = urlSettings s"
  "defaultLibraries (snd (load s)) = defaultLibraries s"
  "sharedLibraries (snd (load s)) = sharedLibraries s"
  "nextPromise (snd (load s)) = nextPromise s"
  "hasBody (snd (load s)) = hasBody s"
  "resolveSrc (snd (load s)) = resolveSrc s"
  by (cases "loaded s"; simp add: load_again load_state)+

text \<open>What a call of load gives.\<close>

lemma load_fst:
  "fst (load s) =
     (if \<not> loaded s \<and> \<not> namespaceExists s \<and> \<not> hasBody s then Inl TypeError
      else Inr (promise s))"
  by (simp add: load_def createLoader_def Let_def)

text \<open>The first call of load in a session without the namespace.\<close>

lemma load_injects:
  assumes "\<not> loaded s" and "\<not> namespaceExists s"
  shows "nextElement (snd (load s)) = Suc (nextElement s)"
    and "elements (snd (load s)) =
           (elements s)(nextElement s \<mapsto>
              \<lparr> el_type = ''text/javascript'', el_src = createUrl (urlSettings s),
                el_onerror = True, el_inserted = hasBody s \<rparr>)"
    and "scriptElement (snd (load s)) = HElement (nextElement s)"
    and "window (snd (load s)) = (window s)(windowCallbackName (urlSettings s) \<mapsto> Callback)"
    and "body (snd (load s)) = (if hasBody s then body s @ [nextElement s] else body s)"
    and "promises (snd (load s)) = promises s"
    and "jobs (snd (load s)) = jobs s"
    and "reactions (snd (load s)) = reactions s"
  using assms by (auto simp: load_state createLoader_def Let_def)

text \<open>The first call of load in a session with the namespace.\<close>

lemma load_resolves:
  assumes "\<not> loaded s" and "namespaceExists s"
  shows "snd (load s) =
           settle (resolvePromise s) (Fulfilled (mapsOf (getGlobal (window s) ''google'')))
             (s\<lparr> loaded := True \<rparr>)"
  using assms by (simp add: load_state createLoader_def)

lemma step_Load: "step Load s = snd (load s)"
  by simp

lemma all_equal_set: "xs \<noteq> [] \<Longrightarrow> \<forall>p\<in>set xs. p = a \<Longrightarrow> set xs = {a}"
  by (cases xs) auto

lemma started_step:
  assumes "loaded s" and "\<not> runsCleanup ev s"
  shows "loaded (step ev s) \<and> promise (step ev s) = promise s
         \<and> nextElement (step ev s) = nextElement s \<and> body (step ev s) = body s
         \<and> elements (step ev s) = elements s \<and> scriptElement (step ev s) = scriptElement s"
proof (cases ev)
  case Microtask
  show ?thesis
  proof (cases "jobs s")
    case Nil
    with Microtask assms show ?thesis by (simp add: microtask_def)
  next
    case (Cons j js)
    with Microtask assms show ?thesis by (cases j) (simp_all add: microtask_def)
  qed
qed (use assms in \<open>simp_all add: load_again release_def onError_def windowCallback_def Let_def
      split: option.splits\<close>)

lemma run_append: "run (es1 @ es2) s = run es2 (run es1 s)"
  by (induction es1 arbitrary: s) simp_all

lemma sameSession_append:
  "sameSession (es1 @ es2) s = (sameSession es1 s \<and> sameSession es2 (run es1 s))"
  by (induction es1 arbitrary: s) simp_all

lemma loadOutcomes_step:
  "set (loadOutcomes (ev # es) s) \<subseteq> {fst (load s)} \<union> set (loadOutcomes es (step ev s))"
  by (cases ev) auto

lemma started_run:
  assumes "loaded s" and "sameSession es s"
  shows "loaded (run es s) \<and> promise (run es s) = promise s
         \<and> nextElement (run es s) = nextElement s \<and> body (run es s) = body s
         \<and> elements (run es s) = elements s \<and> scriptElement (run es s) = scriptElement s
         \<and> (\<forall>r\<in>set (loadOutcomes es s). r = Inr (promise s))"
  using assms
proof (induction es arbitrary: s)
  case Nil
  then show ?case by simp
next
  case (Cons ev es)
  from Cons.prems have ev: "\<not> runsCleanup ev s" and es: "sameSession es (step ev s)"
    by simp_all
  note st = started_step [OF Cons.prems(1) ev]
  from st have l: "loaded (step ev s)" by simp
  note ih = Cons.IH [OF l es]
  have f: "fst (load s) = Inr (promise s)" using Cons.prems(1) by (simp add: load_again)
  from ih st loadOutcomes_step [of ev es s] f show ?case by auto
qed

lemma returned_Inr: "\<forall>r\<in>set os. r = Inr p \<Longrightarrow> \<forall>q\<in>set (returned os). q = p"
  by (induction os rule: returned.induct) auto

text \<open>
  C1 as amended. A session lasts until cleanupEnvironment runs next. Take any state, a call
  of load in it, and any trace that follows in which cleanupEnvironment does not run -
  further calls of load and of release, error events, calls of the callback, jobs that
  pass a rejection on, writes to the settings and to the globals, in any order, before or
  after the promise settles. The first call returns the promise of the session, unless the
  session had not started, the namespace is missing and the document has no body, when it
  throws the TypeError of line 134. Every later call returns the promise of the session
  and leaves the whole state as it was. So every promise returned is the same one, and
  the trigger runs in the first call and only there: in a started session nothing
  happens; in a session that has not started, with the namespace, the first call resolves
  the promise and no element is ever created; without the namespace the first call
  creates exactly one script element carrying the address of createUrl and the error
  handler, registers the callback under the configured name and, when there is a body,
  appends that one element, and the trace that follows creates and appends no other.
\<close>

theorem load_once:
  assumes "sameSession es (snd (load s))"
  shows "fst (load s) =
           (if \<not> loaded s \<and> \<not> namespaceExists s \<and> \<not> hasBody s then Inl TypeError
            else Inr (promise s))
     \<and> (\<forall>r\<in>set (loadOutcomes es (snd (load s))). r = Inr (promise s))
     \<and> (\<forall>p\<in>set (loadResults (Load # es) s). p = promise s)
     \<and> (\<forall>es1 es2. es = es1 @ Load # es2 \<longrightarrow>
            load (run (Load # es1) s) = (Inr (promise s), run (Load # es1) s))
     \<and> (loaded s \<longrightarrow>
            snd (load s) = s
          \<and> elements (run (Load # es) s) = elements s
          \<and> nextElement (run (Load # es) s) = nextElement s
          \<and> body (run (Load # es) s) = body s)
     \<and> (\<not> loaded s \<and> namespaceExists s \<longrightarrow>
            snd (load s) =
              settle (resolvePromise s) (Fulfilled (mapsOf (getGlobal (window s) ''google'')))
                (s\<lparr> loaded := True \<rparr>)
          \<and> elements (run (Load # es) s) = elements s
          \<and> nextElement (run (Load # es) s) = nextElement s
          \<and> body (run (Load # es) s) = body s)
     \<and> (\<not> loaded s \<and> \<not> namespaceExists s \<longrightarrow>
            elements (run (Load # es) s) =
              (elements s)(nextElement s \<mapsto>
                 \<lparr> el_type = ''text/javascript'', el_src = createUrl (urlSettings s),
                   el_onerror = True, el_inserted = hasBody s \<rparr>)
          \<and> nextElement (run (Load # es) s) = Suc (nextElement s)
          \<and> scriptElement (run (Load # es) s) = HElement (nextElement s)
          \<and> window (snd (load s)) = (window s)(windowCallbackName (urlSettings s) \<mapsto> Callback)
          \<and> body (run (Load # es) s) = (if hasBody s then body s @ [nextElement s] else body s))"
proof -
  let ?s1 = "snd (load s)"
  have l1: "loaded ?s1" by simp
  note r = started_run [OF l1 assms]
  have run: "run (Load # es) s = run es ?s1" by simp
  have a: "fst (load s) =
           (if \<not> loaded s \<and> \<not> namespaceExists s \<and> \<not> hasBody s then Inl TypeError
            else Inr (promise s))"
    by (rule load_fst)
  have b: "\<forall>r\<in>set (loadOutcomes es ?s1). r = Inr (promise s)"
    using r by simp
  have c: "\<forall>p\<in>set (loadResults (Load # es) s). p = promise s"
  proof -
    have "\<forall>q\<in>set (returned (loadOutcomes es ?s1)). q = promise s"
      by (rule returned_Inr [OF b])
    with a show ?thesis by (auto simp: loadResults_def split: if_splits)
  qed
  have d: "\<forall>es1 es2. es = es1 @ Load # es2 \<longrightarrow>
            load (run (Load # es1) s) = (Inr (promise s), run (Load # es1) s)"
  proof (intro allI impI)
    fix es1 es2
    assume e: "es = es1 @ Load # es2"
    with assms have "sameSession es1 ?s1" by (simp add: sameSession_append)
    from started_run [OF l1 this]
    have "loaded (run es1 ?s1)" and "promise (run es1 ?s1) = promise s" by simp_all
    then show "load (run (Load # es1) s) = (Inr (promise s), run (Load # es1) s)"
      using load_again [of "run es1 ?s1"] by simp
  qed
  have e: "loaded s \<longrightarrow>
            snd (load s) = s
          \<and> elements (run (Load # es) s) = elements s
          \<and> nextElement (run (Load # es) s) = nextElement s
          \<and> body (run (Load # es) s) = body s"
  proof
    assume l: "loaded s"
    then have "snd (load s) = s" by (simp add: load_again)
    with r show "snd (load s) = s
          \<and> elements (run (Load # es) s) = elements s
          \<and> nextElement (run (Load # es) s) = nextElement s
          \<and> body (run (Load # es) s) = body s"
      unfolding run by simp
  qed
  have f: "\<not> loaded s \<and> namespaceExists s \<longrightarrow>
            snd (load s) =
              settle (resolvePromise s) (Fulfilled (mapsOf (getGlobal (window s) ''google'')))
                (s\<lparr> loaded := True \<rparr>)
          \<and> elements (run (Load # es) s) = elements s
          \<and> nextElement (run (Load # es) s) = nextElement s
          \<and> body (run (Load # es) s) = body s"
  proof
    assume h: "\<not> loaded s \<and> namespaceExists s"
    then have st: "snd (load s) =
              settle (resolvePromise s) (Fulfilled (mapsOf (getGlobal (window s) ''google'')))
                (s\<lparr> loaded := True \<rparr>)"
      by (simp add: load_resolves)
    have "elements ?s1 = elements s" "nextElement ?s1 = nextElement s" "body ?s1 = body s"
      unfolding st by simp_all
    with r st show "snd (load s) =
              settle (resolvePromise s) (Fulfilled (mapsOf (getGlobal (window s) ''google'')))
                (s\<lparr> loaded := True \<rparr>)
          \<and> elements (run (Load # es) s) = elements s
          \<and> nextElement (run (Load # es) s) = nextElement s
          \<and> body (run (Load # es) s) = body s"
      unfolding run by simp
  qed
  have g: "\<not> loaded s \<and> \<not> namespaceExists s \<longrightarrow>
            elements (run (Load # es) s) =
              (elements s)(nextElement s \<mapsto>
                 \<lparr> el_type = ''text/javascript'', el_src = createUrl (urlSettings s),
                   el_onerror = True, el_inserted = hasBody s \<rparr>)
          \<and> nextElement (run (Load # es) s) = Suc (nextElement s)
          \<and> scriptElement (run (Load # es) s) = HElement (nextElement s)
          \<and> window (snd (load s)) = (window s)(windowCallbackName (urlSettings s) \<mapsto> Callback)
          \<and> body (run (Load # es) s) = (if hasBody s then body s @ [nextElement s] else body s)"
  proof
    assume h: "\<not> loaded s \<and> \<not> namespaceExists s"
    then have h1: "\<not> loaded s" and h2: "\<not> namespaceExists s" by simp_all
    note i = load_injects [OF h1 h2]
    from r i(1-5) show "elements (run (Load # es) s) =
              (elements s)(nextElement s \<mapsto>
                 \<lparr> el_type = ''text/javascript'', el_src = createUrl (urlSettings s),
                   el_onerror = True, el_inserted = hasBody s \<rparr>)
          \<and> nextElement (run (Load # es) s) = Suc (nextElement s)
          \<and> scriptElement (run (Load # es) s) = HElement (nextElement s)
          \<and> window (snd (load s)) = (window s)(windowCallbackName (urlSettings s) \<mapsto> Callback)
          \<and> body (run (Load # es) s) = (if hasBody s then body s @ [nextElement s] else body s)"
      unfolding run by simp
  qed
  from a b c d e f g show ?thesis by blast
qed

lemmas unfold_all = start_def startPage_def init_def defaultsNow_def newPromise_def load_def
  createLoader_def release_def namespaceExists_def
  thenCleanup_def settle_def onError_def handleText_def windowCallback_def microtask_def
  cleanupEnvironment_def getGlobal_def loadResults_def Let_def defaultUrlSettings_def
  createUrl_def urlParts_def orElse_def orElseOpt_def

theorem load_once_witness:
  "sameSession [Load, ScriptError 0, Release, Microtask, Load] (snd (load (start Map.empty)))
   \<and> \<not> loaded (start Map.empty) \<and> \<not> namespaceExists (start Map.empty)
   \<and> set (loadOutcomes (Load # [Load, ScriptError 0, Release, Microtask, Load])
             (start Map.empty)) = {Inr (promise (start Map.empty))}
   \<and> nextElement (run (Load # [Load, ScriptError 0, Release, Microtask, Load])
                     (start Map.empty)) = 1
   \<and> body (run (Load # [Load, ScriptError 0, Release, Microtask, Load]) (start Map.empty))
       = [0]
   \<and> sameSession [Load] (snd (load (start [''google'' \<mapsto> Value (JObj 1 [(''maps'', JObj 2 [])])])))
   \<and> namespaceExists (start [''google'' \<mapsto> Value (JObj 1 [(''maps'', JObj 2 [])])])
   \<and> nextElement (run (Load # [Load])
                     (start [''google'' \<mapsto> Value (JObj 1 [(''maps'', JObj 2 [])])])) = 0
   \<and> loaded (snd (load (start Map.empty)))
   \<and> snd (load (snd (load (start Map.empty)))) = snd (load (start Map.empty))"
proof -
  let ?s = "start Map.empty"
  let ?es = "[Load, ScriptError 0, Release, Microtask, Load]"
  let ?t = "start [''google'' \<mapsto> Value (JObj 1 [(''maps'', JObj 2 [])])]"
  let ?u = "snd (load (start Map.empty))"
  have h: "sameSession ?es (snd (load ?s))"
    by (simp add: unfold_all)
  have n: "\<not> loaded ?s" "\<not> namespaceExists ?s" "hasBody ?s" "nextElement ?s = 0" "body ?s = []"
    by (simp_all add: unfold_all)
  note a = load_once [OF h]
  from a have "fst (load ?s) =
           (if \<not> loaded ?s \<and> \<not> namespaceExists ?s \<and> \<not> hasBody ?s then Inl TypeError
            else Inr (promise ?s))"
    by blast
  with n(3) have f: "fst (load ?s) = Inr (promise ?s)" by simp
  from a have al: "\<forall>r\<in>set (loadOutcomes ?es (snd (load ?s))). r = Inr (promise ?s)"
    by blast
  have o: "set (loadOutcomes (Load # ?es) ?s) = {Inr (promise ?s)}"
  proof (rule all_equal_set)
    show "loadOutcomes (Load # ?es) ?s \<noteq> []" by (simp del: step.simps)
    show "\<forall>p\<in>set (loadOutcomes (Load # ?es) ?s). p = Inr (promise ?s)"
      using f al by (simp del: run.simps)
  qed
  from a n(1,2) have e0: "nextElement (run (Load # ?es) ?s) = Suc (nextElement ?s)"
    and b0: "body (run (Load # ?es) ?s)
               = (if hasBody ?s then body ?s @ [nextElement ?s] else body ?s)"
    by blast+
  from e0 n(4) have e: "nextElement (run (Load # ?es) ?s) = 1"
    by (simp del: run.simps)
  from b0 n(3,4,5) have b: "body (run (Load # ?es) ?s) = [0]"
    by (simp del: run.simps)
  have h2: "sameSession [Load] (snd (load ?t))" by (simp add: unfold_all)
  have n2: "\<not> loaded ?t" "namespaceExists ?t" "nextElement ?t = 0"
    by (simp_all add: unfold_all)
  from load_once [OF h2] n2(1,2)
  have "nextElement (run (Load # [Load]) ?t) = nextElement ?t"
    by blast
  with n2(3) have e2: "nextElement (run (Load # [Load]) ?t) = 0"
    by (simp del: run.simps)
  have h3: "sameSession [] (snd (load ?u))" by simp
  have l3: "loaded ?u" by simp
  from load_once [OF h3] l3 have e3: "snd (load ?u) = ?u" by blast
  from h n(1,2) o e b h2 n2(2) e2 l3 e3 show ?thesis by blast
qed

text \<open>
  C1, a page without a body and without the namespace: the first call of load throws the
  TypeError, after the session has been marked started, the element created and the
  callback registered; the second call returns the promise, which is pending, and nothing
  has been appended.
\<close>

theorem load_once_counterexample:
  "loadOutcomes [Load, Load] (startPage id False Map.empty) = [Inl TypeError, Inr 0]
   \<and> loaded (run [Load] (startPage id False Map.empty))
   \<and> nextElement (run [Load] (startPage id False Map.empty)) = 1
   \<and> window (run [Load] (startPage id False Map.empty))
        (windowCallbackName defaultUrlSettings) = Some Callback
   \<and> body (run [Load, Load] (startPage id False Map.empty)) = []
   \<and> promises (run [Load, Load] (startPage id False Map.empty)) 0 = Pending"
  by (simp add: unfold_all)

subsection \<open>init and cleanupEnvironment\<close>

lemma init_frame [simp]:
  "loaded (init s) = False"
  "urlSettings (init s) = defaultsNow s"
  "defaultLibraries (init s) = defaultLibraries s"
  "sharedLibraries (init s) = True"
  "promise (init s) = nextPromise s"
  "resolvePromise (init s) = nextPromise s"
  "rejectPromise (init s) = nextPromise s"
  "nextPromise (init s) = Suc (nextPromise s)"
  "promises (init s) = (promises s)(nextPromise s := Pending)"
  "scriptElement (init s) = scriptElement s"
  "window (init s) = window s"
  "jobs (init s) = jobs s"
  "reactions (init s) = reactions s"
  "elements (init s) = elements s"
  "nextElement (init s) = nextElement s"
  "body (init s) = body s"
  "hasBody (init s) = hasBody s"
  "resolveSrc (init s) = resolveSrc s"
  by (simp_all add: init_def newPromise_def defaultsNow_def)

lemma default_name_not_google [simp]:
  "windowCallbackName defaultUrlSettings \<noteq> ''google''"
  "''google'' \<noteq> windowCallbackName defaultUrlSettings"
  by (simp_all add: defaultUrlSettings_def)

lemma defaultsNow_name [simp]:
  "windowCallbackName (defaultsNow s) = windowCallbackName defaultUrlSettings"
  by (simp add: defaultsNow_def)

lemma cleanup_frame [simp]:
  "loaded (cleanupEnvironment s) = False"
  "urlSettings (cleanupEnvironment s) = defaultsNow s"
  "defaultLibraries (cleanupEnvironment s) = defaultLibraries s"
  "sharedLibraries (cleanupEnvironment s) = True"
  "promise (cleanupEnvironment s) = nextPromise s"
  "resolvePromise (cleanupEnvironment s) = nextPromise s"
  "rejectPromise (cleanupEnvironment s) = nextPromise s"
  "nextPromise (cleanupEnvironment s) = Suc (nextPromise s)"
  "promises (cleanupEnvironment s) = (promises s)(nextPromise s := Pending)"
  "jobs (cleanupEnvironment s) = jobs s"
  "reactions (cleanupEnvironment s) = reactions s"
  "elements (cleanupEnvironment s) = elements s"
  "nextElement (cleanupEnvironment s) = nextElement s"
  "hasBody (cleanupEnvironment s) = hasBody s"
  "resolveSrc (cleanupEnvironment s) = resolveSrc s"
  by (simp_all add: cleanupEnvironment_def Let_def split: handle.splits)

lemma defaultsNow_cleanup [simp]: "defaultsNow (cleanupEnvironment s) = defaultsNow s"
  by (simp add: defaultsNow_def)

lemma cleanup_scriptElement:
  "scriptElement (cleanupEnvironment s) =
     (case scriptElement s of HElement e \<Rightarrow> HNull | h \<Rightarrow> h)"
  by (simp add: cleanupEnvironment_def Let_def split: handle.splits)

lemma cleanup_body:
  "body (cleanupEnvironment s) =
     (case scriptElement s of HElement e \<Rightarrow> removeAll e (body s) | h \<Rightarrow> body s)"
  by (simp add: cleanupEnvironment_def Let_def split: handle.splits)

lemma cleanup_window:
  "window (cleanupEnvironment s) n =
     (if (n = ''google'' \<or> n = windowCallbackName defaultUrlSettings)
         \<and> getGlobal (window s) n \<noteq> Value JUndefined
      then None else window s n)"
  by (simp add: cleanupEnvironment_def Let_def getGlobal_def split: handle.splits)

lemma cleanup_slots_absent:
  "getGlobal (window (cleanupEnvironment s)) ''google'' = Value JUndefined"
  "getGlobal (window (cleanupEnvironment s)) (windowCallbackName defaultUrlSettings)
     = Value JUndefined"
  by (simp_all add: getGlobal_def cleanup_window split: option.splits)

text \<open>
  The settings share the array of libraries with the defaults: a push onto the array that
  init put there is a push onto the defaults' own array and is still there after release;
  an array that the page assigned is dropped by release.
\<close>

lemma push_survives_release:
  "libraries (urlSettings (run [PushLibrary ''places'', Release] (start Map.empty)))
     = [''places'']
   \<and> defaultsNow (run [PushLibrary ''places'', Release] (start Map.empty))
       \<noteq> defaultUrlSettings
   \<and> libraries (urlSettings (run [SetLibraries [''places''], Release] (start Map.empty)))
       = []"
  by (simp add: unfold_all)

lemma cleanup_torn_down: "torn_down (cleanupEnvironment s)"
  by (simp add: torn_down_def cleanup_slots_absent cleanup_scriptElement split: handle.splits)

lemma settle_torn_down [simp]: "torn_down (settle p out s) = torn_down s"
  by (simp add: torn_down_def defaultsNow_def)



subsection \<open>release in a session that has not started\<close>

lemma release_not_started:
  assumes "\<not> loaded s"
  shows "promises (snd (release s)) (fst (release s)) = Fulfilled JUndefined"
    and "jobs (snd (release s)) = jobs s"
    and "reactions (snd (release s)) = reactions s"
    and "torn_down (snd (release s))"
    and "promises (snd (release s)) (promise (snd (release s))) = Pending"
    and "\<forall>e. scriptElement s = HElement e \<longrightarrow> e \<notin> set (body (snd (release s)))"
  using assms
  by (simp_all add: release_def torn_down_def defaultsNow_def cleanup_slots_absent
      cleanup_scriptElement cleanup_body split: handle.splits)

subsection \<open>Every reachable state is wired\<close>

lemma wired_start: "wired (startPage rs hb w)"
  by (simp add: wired_def startPage_def)

lemma start_fresh:
  "\<not> loaded (startPage rs hb w)"
  "promises (startPage rs hb w) (promise (startPage rs hb w)) = Pending"
  "jobs (startPage rs hb w) = []" "urlSettings (startPage rs hb w) = defaultUrlSettings"
  by (simp_all add: startPage_def defaultsNow_def defaultUrlSettings_def)

lemma wired_load: "wired s \<Longrightarrow> wired (snd (load s))"
  by (cases "loaded s")
    (auto simp: wired_def load_again load_state createLoader_def Let_def split: if_splits)

lemma wired_step:
  assumes "wired s"
  shows "wired (step ev s)"
proof (cases ev)
  case Load
  with assms show ?thesis by (simp add: wired_load)
next
  case Microtask
  show ?thesis
  proof (cases "jobs s")
    case Nil
    with Microtask assms show ?thesis by (simp add: microtask_def)
  next
    case (Cons j js)
    with Microtask assms show ?thesis
      by (cases j) (simp_all add: microtask_def wired_def)
  qed
qed (use assms in \<open>simp_all add: wired_def release_def onError_def
      windowCallback_def Let_def split: option.splits\<close>)

lemma wired_run: "wired s \<Longrightarrow> wired (run es s)"
  by (induction es arbitrary: s) (simp_all add: wired_step)

lemma resolveSrc_step [simp]: "resolveSrc (step ev s) = resolveSrc s"
proof (cases ev)
  case Microtask
  show ?thesis
  proof (cases "jobs s")
    case Nil
    with Microtask show ?thesis by (simp add: microtask_def)
  next
    case (Cons j js)
    with Microtask show ?thesis by (cases j) (simp_all add: microtask_def)
  qed
qed (simp_all add: release_def onError_def windowCallback_def Let_def split: option.splits)

lemma resolveSrc_run [simp]: "resolveSrc (run es s) = resolveSrc s"
  by (induction es arbitrary: s) simp_all

subsection \<open>Settled promises, loading sessions and failed sessions\<close>

lemma settle_other: "q \<noteq> p \<Longrightarrow> promises (settle p out s) q = promises s q"
  by (simp add: settle_def)

lemma settle_settled: "promises s p \<noteq> Pending \<Longrightarrow> settle p out s = s"
  by (simp add: settle_def)

lemma settle_keeps_settled:
  "promises s q \<noteq> Pending \<Longrightarrow> promises (settle p out s) q = promises s q"
  by (cases "q = p") (simp_all add: settle_def)

lemma settle_pending: "promises s p = Pending \<Longrightarrow> promises (settle p out s) p = out"
  by (simp add: settle_def)

lemma settle_Rejected_jobs:
  "list_all isRejectJob (jobs s) \<Longrightarrow> list_all isRejectJob (jobs (settle p (Rejected e) s))"
  by (auto simp: settle_def list_all_iff)

lemma nextPromise_step: "nextPromise s \<le> nextPromise (step ev s)"
proof (cases ev)
  case Microtask
  show ?thesis
  proof (cases "jobs s")
    case Nil
    with Microtask show ?thesis by (simp add: microtask_def)
  next
    case (Cons j js)
    with Microtask show ?thesis by (cases j) (simp_all add: microtask_def)
  qed
qed (simp_all add: release_def onError_def windowCallback_def Let_def
      split: option.splits)

lemma load_keeps_settled:
  "promises s p \<noteq> Pending \<Longrightarrow> promises (snd (load s)) p = promises s p"
  by (cases "loaded s")
    (simp_all add: load_again load_state createLoader_def settle_keeps_settled Let_def)

lemma settled_step:
  assumes "p < nextPromise s" and "promises s p \<noteq> Pending"
  shows "promises (step ev s) p = promises s p"
proof (cases ev)
  case Load
  with assms show ?thesis by (simp add: load_keeps_settled)
next
  case Release
  with assms show ?thesis by (simp add: release_def)
next
  case (ScriptError e)
  with assms show ?thesis
    by (simp add: onError_def settle_keeps_settled split: option.splits)
next
  case (InvokeCallback n)
  with assms show ?thesis by (simp add: windowCallback_def settle_keeps_settled Let_def)
next
  case Microtask
  show ?thesis
  proof (cases "jobs s")
    case Nil
    with Microtask show ?thesis by (simp add: microtask_def)
  next
    case (Cons j js)
    with Microtask assms show ?thesis
      by (cases j) (simp_all add: microtask_def settle_keeps_settled)
  qed
qed simp_all

lemma settled_run:
  assumes "p < nextPromise s" and "promises s p \<noteq> Pending"
  shows "promises (run es s) p = promises s p \<and> p < nextPromise (run es s)"
  using assms
proof (induction es arbitrary: s)
  case Nil
  then show ?case by simp
next
  case (Cons ev es)
  have a: "p < nextPromise (step ev s)"
    using Cons.prems(1) nextPromise_step [of s ev] by simp
  have b: "promises (step ev s) p = promises s p"
    by (rule settled_step [OF Cons.prems])
  with Cons.prems have c: "promises (step ev s) p \<noteq> Pending" by simp
  from Cons.IH [OF a c] b show ?case by simp
qed

lemma load_establishes_loading:
  assumes "\<not> loaded s0" and "\<not> namespaceExists s0"
    and "promises s0 (promise s0) = Pending"
    and "resolvePromise s0 = promise s0" and "rejectPromise s0 = promise s0"
    and "promise s0 < nextPromise s0" and "jobs s0 = []"
  shows "loading (promise s0) (nextElement s0)
           \<lparr> el_type = ''text/javascript'', el_src = createUrl (urlSettings s0),
             el_onerror = True, el_inserted = hasBody s0 \<rparr>
           (snd (load s0))"
  using assms load_injects [OF assms(1,2)] by (simp add: loading_def)

lemma loading_step:
  assumes "loading p e el s" and "byCaller ev"
  shows "loading p e el (step ev s)"
  using assms
  by (cases ev) (auto simp: loading_def load_again release_def thenCleanup_def newPromise_def)

lemma loading_run:
  assumes "loading p e el s" and "\<forall>ev\<in>set es. byCaller ev"
  shows "loading p e el (run es s)"
  using assms
proof (induction es arbitrary: s)
  case Nil
  then show ?case by simp
next
  case (Cons ev es)
  from Cons.prems have "loading p e el (step ev s)" by (simp add: loading_step)
  with Cons show ?case by simp
qed

lemma byCaller_sameSession:
  assumes "loaded s" and "\<forall>ev\<in>set es. byCaller ev"
  shows "sameSession es s"
  using assms
proof (induction es arbitrary: s)
  case Nil
  then show ?case by simp
next
  case (Cons ev es)
  from Cons.prems have nc: "\<not> runsCleanup ev s" by (cases ev) simp_all
  from started_step [OF Cons.prems(1) nc] have "loaded (step ev s)" by simp
  with Cons nc show ?case by simp
qed

lemma loading_error:
  assumes "loading p e el s" and "el_onerror el" and "el_inserted el"
  shows "failed p (URIError (''The script '' @ resolveSrc s (el_src el) @ '' is not accessible.''))
           (step (ScriptError e) s)"
  using assms
  by (auto simp: loading_def failed_def onError_def handleText_def settle_def list_all_iff)

lemma loading_only_error:
  assumes "loading p e el s" and "promises (step ev s) p = Rejected x"
  shows "x = URIError (''The script '' @ resolveSrc s (el_src el) @ '' is not accessible.'')
     \<and> (\<exists>e' el'. ev = ScriptError e' \<and> elements s e' = Some el' \<and> el_onerror el'
                  \<and> el_inserted el')"
proof (cases ev)
  case Load
  with assms show ?thesis by (simp add: loading_def load_again)
next
  case Release
  with assms show ?thesis by (simp add: loading_def release_def)
next
  case (ScriptError e')
  with assms show ?thesis
    by (auto simp: loading_def onError_def handleText_def settle_def
        split: option.splits if_splits)
next
  case (InvokeCallback n)
  with assms show ?thesis
    by (auto simp: loading_def windowCallback_def settle_def Let_def split: if_splits)
next
  case Microtask
  with assms show ?thesis by (simp add: loading_def microtask_def)
qed (use assms in \<open>simp_all add: loading_def\<close>)

lemma failed_step:
  assumes "failed p err s"
  shows "failed p err (step ev s)"
proof (cases ev)
  case Load
  with assms show ?thesis by (simp add: failed_def load_again)
next
  case Release
  with assms show ?thesis
    by (auto simp: failed_def release_def thenCleanup_def newPromise_def)
next
  case (ScriptError e)
  with assms show ?thesis
    by (auto simp: failed_def onError_def settle_keeps_settled settle_Rejected_jobs
        split: option.splits)
next
  case (InvokeCallback n)
  with assms show ?thesis
    by (auto simp: failed_def windowCallback_def settle_settled Let_def)
next
  case Microtask
  show ?thesis
  proof (cases "jobs s")
    case Nil
    with Microtask assms show ?thesis by (simp add: microtask_def)
  next
    case (Cons j js)
    from assms Cons obtain d x where j: "j = RejectJob d x"
      by (cases j) (auto simp: failed_def)
    from assms Cons have js: "list_all isRejectJob (jobs (s\<lparr> jobs := js \<rparr>))"
      by (simp add: failed_def)
    from assms have pr: "promises (s\<lparr> jobs := js \<rparr>) p \<noteq> Pending"
      by (simp add: failed_def)
    have st: "step ev s = settle d (Rejected x) (s\<lparr> jobs := js \<rparr>)"
      using Microtask Cons j by (simp add: microtask_def)
    from assms settle_keeps_settled [OF pr] settle_Rejected_jobs [OF js]
    show ?thesis unfolding st by (simp add: failed_def)
  qed
qed (use assms in \<open>simp_all add: failed_def\<close>)

lemma failed_run:
  assumes "failed p err s"
  shows "failed p err (run es s) \<and> (\<forall>r\<in>set (loadOutcomes es s). r = Inr p)"
  using assms
proof (induction es arbitrary: s)
  case Nil
  then show ?case by simp
next
  case (Cons ev es)
  have f: "failed p err (step ev s)" by (rule failed_step [OF Cons.prems])
  from Cons.prems have "fst (load s) = Inr p" by (simp add: failed_def load_again)
  with Cons.IH [OF f] loadOutcomes_step [of ev es s] show ?case by auto
qed

lemma load_fulfils:
  assumes "namespaceExists s0" and "\<not> loaded s0"
    and "promises s0 (promise s0) = Pending" and "resolvePromise s0 = promise s0"
  shows "promises (snd (load s0)) (promise s0)
         = Fulfilled (mapsOf (getGlobal (window s0) ''google''))"
  using assms by (simp add: load_resolves settle_pending)




subsection \<open>release in a started session\<close>

text \<open>
  Line 84 registers cleanupEnvironment for fulfilment only. When the promise is fulfilled,
  release followed by its job gives a torn-down module with a new pending promise and a
  fulfilled returned promise; when the promise is rejected, the returned promise is
  rejected with the same error and the session stays as it is whatever follows.
\<close>

lemma release_after_failure:
  assumes "failed p err s" and "jobs s = []"
  shows "promises (run [Release, Microtask] s) (fst (release s)) = Rejected err
     \<and> (\<forall>es. loaded (run es s) \<and> promise (run es s) = p
             \<and> promises (run es s) p = Rejected err)"
proof -
  from assms have a: "promises (run [Release, Microtask] s) (fst (release s)) = Rejected err"
    by (simp add: failed_def release_def thenCleanup_def newPromise_def microtask_def
        settle_def)
  have b: "\<forall>es. loaded (run es s) \<and> promise (run es s) = p
             \<and> promises (run es s) p = Rejected err"
    using failed_run [OF assms(1)] by (simp add: failed_def)
  from a b show ?thesis by blast
qed

lemma release_after_fulfilment:
  assumes "loaded s" and "promises s (promise s) = Fulfilled v"
    and "promise s < nextPromise s" and "jobs s = []"
  shows "torn_down (run [Release, Microtask] s)
     \<and> promises (run [Release, Microtask] s) (fst (release s)) = Fulfilled JUndefined
     \<and> promise (run [Release, Microtask] s) \<noteq> promise s
     \<and> promises (run [Release, Microtask] s) (promise (run [Release, Microtask] s)) = Pending
     \<and> (\<forall>e. scriptElement s = HElement e \<longrightarrow> e \<notin> set (body (run [Release, Microtask] s)))"
  using assms
  by (simp add: release_def thenCleanup_def newPromise_def microtask_def settle_def
      torn_down_def defaultsNow_def cleanup_slots_absent cleanup_scriptElement cleanup_body
      split: handle.splits)

text \<open>
  Two calls of release in a session whose promise is fulfilled leave two jobs that each
  run cleanupEnvironment. Here the page calls load between the two jobs, from a
  continuation registered on the promise between the two calls of release: the session
  that this call starts (promise 3, script element 0) is torn down by the second job,
  which takes its element out of the body and replaces its promise, so the next call of
  load returns another promise (4).
\<close>

lemma double_teardown:
  "loadResults [Load, Release, Release, Microtask, Load, Microtask, Load]
     (start [''google'' \<mapsto> Value (JObj 1 [(''maps'', JObj 2 [])])]) = [0, 3, 4]
   \<and> body (run [Load, Release, Release, Microtask, Load]
        (start [''google'' \<mapsto> Value (JObj 1 [(''maps'', JObj 2 [])])])) = [0]
   \<and> body (run [Load, Release, Release, Microtask, Load, Microtask]
        (start [''google'' \<mapsto> Value (JObj 1 [(''maps'', JObj 2 [])])])) = []
   \<and> promises (run [Load, Release, Release, Microtask, Load, Microtask, Load]
        (start [''google'' \<mapsto> Value (JObj 1 [(''maps'', JObj 2 [])])])) 3 = Pending
   \<and> resolvePromise (run [Load, Release, Release, Microtask, Load, Microtask, Load]
        (start [''google'' \<mapsto> Value (JObj 1 [(''maps'', JObj 2 [])])])) = 4"
  by (simp add: unfold_all)

text \<open>
  C8, evaluated on the module loaded in a page without the namespace: load, the error
  event of the injected script, two calls of release, the two jobs of release. The promise
  of load (0) is rejected; the promises returned by the two calls of release (1 and 2) are
  both rejected with the URIError of load; no job and no reaction is left that could
  settle anything, the session is still started with the same promise, and the script
  element is still in the body.
\<close>

theorem repeated_release_after_rejection:
  "fst (release (run [Load, ScriptError 0] (start Map.empty))) = 1
   \<and> fst (release (run [Load, ScriptError 0, Release] (start Map.empty))) = 2
   \<and> promises (run [Load, ScriptError 0, Release, Release, Microtask, Microtask]
                  (start Map.empty)) 1
       = Rejected (URIError
       ''The script https://maps.googleapis.com/maps/api/js?callback=__google_maps_api_provider_initializator__&v=3.32 is not accessible.'')
   \<and> promises (run [Load, ScriptError 0, Release, Release, Microtask, Microtask]
                  (start Map.empty)) 2
       = Rejected (URIError
       ''The script https://maps.googleapis.com/maps/api/js?callback=__google_maps_api_provider_initializator__&v=3.32 is not accessible.'')
   \<and> jobs (run [Load, ScriptError 0, Release, Release, Microtask, Microtask]
                  (start Map.empty)) = []
   \<and> reactions (run [Load, ScriptError 0, Release, Release, Microtask, Microtask]
                  (start Map.empty)) = []
   \<and> loaded (run [Load, ScriptError 0, Release, Release, Microtask, Microtask]
                  (start Map.empty))
   \<and> promise (run [Load, ScriptError 0, Release, Release, Microtask, Microtask]
                  (start Map.empty)) = 0
   \<and> body (run [Load, ScriptError 0, Release, Release, Microtask, Microtask]
                  (start Map.empty)) = [0]"
  by (simp add: unfold_all)

text \<open>
  C2, evaluated on the module loaded in a page without the namespace: load, the error
  event of the injected script, release, the job of release. The promise of load (0) is
  rejected; the promise returned by release (1) is rejected with the same URIError; no job
  and no reaction is left that could still run cleanupEnvironment, and it has not run: the
  session is still started with the same promise and init has created no new one.
\<close>

theorem release_after_rejection:
  "fst (release (run [Load, ScriptError 0] (start Map.empty))) = 1
   \<and> promises (run [Load, ScriptError 0] (start Map.empty)) 0 = Rejected (URIError
       ''The script https://maps.googleapis.com/maps/api/js?callback=__google_maps_api_provider_initializator__&v=3.32 is not accessible.'')
   \<and> promises (run [Load, ScriptError 0, Release, Microtask] (start Map.empty)) 1
       = Rejected (URIError
       ''The script https://maps.googleapis.com/maps/api/js?callback=__google_maps_api_provider_initializator__&v=3.32 is not accessible.'')
   \<and> jobs (run [Load, ScriptError 0, Release, Microtask] (start Map.empty)) = []
   \<and> reactions (run [Load, ScriptError 0, Release, Microtask] (start Map.empty)) = []
   \<and> loaded (run [Load, ScriptError 0, Release, Microtask] (start Map.empty))
   \<and> promise (run [Load, ScriptError 0, Release, Microtask] (start Map.empty)) = 0
   \<and> nextPromise (run [Load, ScriptError 0, Release, Microtask] (start Map.empty)) = 2"
  by (simp add: unfold_all)

text \<open>
  C7, evaluated on the page setting a key, then load, the error event of the injected
  script, release and the job of release: the promise returned by release is settled
  (rejected), yet the settings are not the defaults, the callback slot is still present,
  the script element is still in the body and still held by scriptElement, and the next
  call of load returns the promise of the failed session again.
\<close>

theorem no_reset_after_rejection:
  "promises (run [Configure (defaultUrlSettings\<lparr> key := Some ''K'' \<rparr>), Load, ScriptError 0,
                   Release, Microtask] (start Map.empty)) 1
     = Rejected (URIError
       ''The script https://maps.googleapis.com/maps/api/js?callback=__google_maps_api_provider_initializator__&key=K&v=3.32 is not accessible.'')
   \<and> urlSettings (run [Configure (defaultUrlSettings\<lparr> key := Some ''K'' \<rparr>), Load, ScriptError 0,
                   Release, Microtask] (start Map.empty)) \<noteq> defaultUrlSettings
   \<and> window (run [Configure (defaultUrlSettings\<lparr> key := Some ''K'' \<rparr>), Load, ScriptError 0,
                   Release, Microtask] (start Map.empty))
        (windowCallbackName defaultUrlSettings) = Some Callback
   \<and> body (run [Configure (defaultUrlSettings\<lparr> key := Some ''K'' \<rparr>), Load, ScriptError 0,
                   Release, Microtask] (start Map.empty)) = [0]
   \<and> scriptElement (run [Configure (defaultUrlSettings\<lparr> key := Some ''K'' \<rparr>), Load,
                   ScriptError 0, Release, Microtask] (start Map.empty)) = HElement 0
   \<and> loadResults [Configure (defaultUrlSettings\<lparr> key := Some ''K'' \<rparr>), Load, ScriptError 0,
                   Release, Microtask, Load] (start Map.empty) = [0, 0]"
  by (simp add: unfold_all)

text \<open>
  C9, a trace against the last part of the claim: load registers the callback under the
  default name, the page then changes the callback name, the callback runs, release is
  called and its job runs cleanupEnvironment. The slot registered by load is there until
  the job and is the one deleted by it, although the name was changed after load.
\<close>

theorem callback_slot_counterexample:
  "window (run [Load] (start Map.empty)) (windowCallbackName defaultUrlSettings) = Some Callback
   \<and> windowCallbackName (urlSettings
        (run [Load, Configure (defaultUrlSettings\<lparr> windowCallbackName := ''other'' \<rparr>)]
           (start Map.empty))) = ''other''
   \<and> window (run [Load, Configure (defaultUrlSettings\<lparr> windowCallbackName := ''other'' \<rparr>),
                  SetGlobal ''google'' (Some (Value (JObj 1 [(''maps'', JObj 2 [])]))),
                  InvokeCallback (windowCallbackName defaultUrlSettings), Release]
             (start Map.empty)) (windowCallbackName defaultUrlSettings) = Some Callback
   \<and> window (run [Load, Configure (defaultUrlSettings\<lparr> windowCallbackName := ''other'' \<rparr>),
                  SetGlobal ''google'' (Some (Value (JObj 1 [(''maps'', JObj 2 [])]))),
                  InvokeCallback (windowCallbackName defaultUrlSettings), Release, Microtask]
             (start Map.empty)) (windowCallbackName defaultUrlSettings) = None"
  by (simp add: unfold_all)

text \<open>
  C9 as amended. cleanupEnvironment deletes, besides \<open>google\<close>, the slot of the default
  callback name and no other (the settings are reset before the name is read), whatever
  the settings were before; so a slot holding the callback is deleted exactly when its
  name is the default name (or \<open>google\<close>), and one registered by load under another name
  stays.
\<close>

theorem cleanup_deletes_default_slot:
  "window (cleanupEnvironment s) n =
     (if (n = ''google'' \<or> n = windowCallbackName defaultUrlSettings)
         \<and> getGlobal (window s) n \<noteq> Value JUndefined
      then None else window s n)
   \<and> (window s n = Some Callback \<longrightarrow>
        (window (cleanupEnvironment s) n = None)
        = (n = ''google'' \<or> n = windowCallbackName defaultUrlSettings))"
  by (auto simp: cleanup_window getGlobal_def)

theorem cleanup_deletes_default_slot_witness:
  "window (run [Configure (defaultUrlSettings\<lparr> windowCallbackName := ''cb'' \<rparr>), Load]
             (start Map.empty)) ''cb'' = Some Callback
   \<and> window (cleanupEnvironment
        (run [Configure (defaultUrlSettings\<lparr> windowCallbackName := ''cb'' \<rparr>), Load]
           (start Map.empty))) ''cb'' = Some Callback"
proof -
  let ?s = "run [Configure (defaultUrlSettings\<lparr> windowCallbackName := ''cb'' \<rparr>), Load]
             (start Map.empty)"
  have h: "window ?s ''cb'' = Some Callback" by (simp add: unfold_all)
  have n: "\<not> (''cb'' = ''google'' \<or> ''cb'' = windowCallbackName defaultUrlSettings)"
    by (simp add: defaultUrlSettings_def)
  from cleanup_deletes_default_slot [of ?s "''cb''"] h n
  have "window (cleanupEnvironment ?s) ''cb'' = Some Callback" by simp
  with h show ?thesis by blast
qed

end
